theory Spec2Isabelle
  imports Complex_Main
begin

section \<open>JavaScript strings\<close>

text \<open>
  A JavaScript string is a sequence of UTF-16 code units, and \<open>length\<close>, \<open>substring\<close>
  and a regular expression without the \<open>u\<close> flag all work on code units. A code unit is
  modelled as a natural number (below 65536 in a real string; no function here depends on
  the bound).
\<close>

type_synonym jsstring = "nat list"

abbreviation TAB :: nat where "TAB \<equiv> 0x09"
abbreviation LF :: nat where "LF \<equiv> 0x0A"
abbreviation CR :: nat where "CR \<equiv> 0x0D"
abbreviation SPACE :: nat where "SPACE \<equiv> 0x20"
abbreviation LBRACKET :: nat where "LBRACKET \<equiv> 0x5B"
abbreviation RBRACKET :: nat where "RBRACKET \<equiv> 0x5D"
abbreviation LPAREN :: nat where "LPAREN \<equiv> 0x28"
abbreviation RPAREN :: nat where "RPAREN \<equiv> 0x29"

text \<open>The code units of an ASCII literal, for writing concrete inputs.\<close>

definition js :: "string \<Rightarrow> jsstring" where
  "js s = map of_char s"

text \<open>
  The class \<open>\s\<close> of a JavaScript regular expression, which is also the set that
  \<open>String.prototype.trim\<close> strips: the white space and line terminator code points of
  ECMAScript.
\<close>

definition is_space :: "nat \<Rightarrow> bool" where
  "is_space c \<longleftrightarrow>
     c = TAB \<or> c = LF \<or> c = 0x0B \<or> c = 0x0C \<or> c = CR \<or> c = SPACE \<or> c = 0xA0 \<or>
     c = 0x1680 \<or> (0x2000 \<le> c \<and> c \<le> 0x200A) \<or> c = 0x2028 \<or> c = 0x2029 \<or>
     c = 0x202F \<or> c = 0x205F \<or> c = 0x3000 \<or> c = 0xFEFF"

section \<open>Content Sanitizer (embed/index.ts, lines 84-100)\<close>

text \<open>\<open>.replace(/\r\n/g, '\n')\<close>: every CR LF pair becomes one LF, scanning left to right.\<close>

fun crlf_to_lf :: "jsstring \<Rightarrow> jsstring" where
  "crlf_to_lf (c # d # r) =
     (if c = CR \<and> d = LF then LF # crlf_to_lf r else c # crlf_to_lf (d # r))"
| "crlf_to_lf r = r"

text \<open>\<open>.replace(/\r/g, '\n')\<close>: every remaining CR becomes LF.\<close>

definition cr_to_lf :: "jsstring \<Rightarrow> jsstring" where
  "cr_to_lf s = map (\<lambda>c. if c = CR then LF else c) s"

text \<open>
  One attempt of the pattern \<open>\[([^\]]*)\]\([^)]*\)\<close> at the head of the string. The
  starred classes are greedy and each is followed by the one character the class excludes,
  so backtracking never finds a match the longest run misses: the run is
  \<open>takeWhile\<close>, and the match fails when the closing character is not what follows.
  The result is the text of group 1 and the input after the match.
\<close>

definition match_link :: "jsstring \<Rightarrow> (jsstring \<times> jsstring) option" where
  "match_link s =
     (case s of
        [] \<Rightarrow> None
      | c # r \<Rightarrow>
          if c \<noteq> LBRACKET then None
          else (case dropWhile (\<lambda>x. x \<noteq> RBRACKET) r of
                  [] \<Rightarrow> None
                | _ # r2 \<Rightarrow>
                    (case r2 of
                       [] \<Rightarrow> None
                     | d # r3 \<Rightarrow>
                         if d \<noteq> LPAREN then None
                         else (case dropWhile (\<lambda>x. x \<noteq> RPAREN) r3 of
                                 [] \<Rightarrow> None
                               | _ # r5 \<Rightarrow> Some (takeWhile (\<lambda>x. x \<noteq> RBRACKET) r, r5)))))"

lemma match_link_shorter:
  "match_link s = Some (t, rest) \<Longrightarrow> length rest < length s"
proof -
  assume m: "match_link s = Some (t, rest)"
  then obtain c r where s: "s = c # r"
    by (cases s) (auto simp: match_link_def)
  from m s obtain b r2 where a: "dropWhile (\<lambda>x. x \<noteq> RBRACKET) r = b # r2"
    by (auto simp: match_link_def split: if_splits list.splits)
  from m s a obtain d r3 where b: "r2 = d # r3"
    by (auto simp: match_link_def split: if_splits list.splits)
  from m s a b obtain e where c: "dropWhile (\<lambda>x. x \<noteq> RPAREN) r3 = e # rest"
    by (auto simp: match_link_def split: if_splits list.splits)
  have "length (e # rest) \<le> length r3"
    using length_dropWhile_le [of "\<lambda>x. x \<noteq> RPAREN" r3] c by simp
  moreover have "length (b # r2) \<le> length r"
    using length_dropWhile_le [of "\<lambda>x. x \<noteq> RBRACKET" r] a by simp
  ultimately show ?thesis using s b by simp
qed

text \<open>
  \<open>.replace(/\[([^\]]*)\]\([^)]*\)/g, '$1')\<close>: a global replace tries the pattern at
  each position from the left; a match is replaced by group 1 and the scan goes on after
  it, a position with no match keeps its character.
\<close>

function strip_links :: "jsstring \<Rightarrow> jsstring" where
  "strip_links [] = []"
| "strip_links (c # r) =
     (case match_link (c # r) of
        Some (t, rest) \<Rightarrow> t @ strip_links rest
      | None \<Rightarrow> c # strip_links r)"
  by pat_completeness auto
termination
  by (relation "measure length") (auto dest: match_link_shorter)

text \<open>\<open>.replace(/\[[^\]]*\]/g, '')\<close>: a bracketed reference is deleted.\<close>

function strip_refs :: "jsstring \<Rightarrow> jsstring" where
  "strip_refs [] = []"
| "strip_refs (c # r) =
     (if c = LBRACKET
      then (case dropWhile (\<lambda>x. x \<noteq> RBRACKET) r of
              [] \<Rightarrow> c # strip_refs r
            | _ # rest \<Rightarrow> strip_refs rest)
      else c # strip_refs r)"
  by pat_completeness auto
termination
proof (relation "measure length")
  fix c :: nat and r x21 x22
  assume "dropWhile (\<lambda>x. x \<noteq> RBRACKET) r = x21 # x22"
  then have "length (x21 # x22) \<le> length r"
    using length_dropWhile_le [of "\<lambda>x. x \<noteq> RBRACKET" r] by simp
  then show "(x22, c # r) \<in> measure length" by simp
qed auto

text \<open>\<open>.replace(/\([^)]*\)/g, '')\<close>: parenthetical content is deleted.\<close>

function strip_parens :: "jsstring \<Rightarrow> jsstring" where
  "strip_parens [] = []"
| "strip_parens (c # r) =
     (if c = LPAREN
      then (case dropWhile (\<lambda>x. x \<noteq> RPAREN) r of
              [] \<Rightarrow> c # strip_parens r
            | _ # rest \<Rightarrow> strip_parens rest)
      else c # strip_parens r)"
  by pat_completeness auto
termination
proof (relation "measure length")
  fix c :: nat and r x21 x22
  assume "dropWhile (\<lambda>x. x \<noteq> RPAREN) r = x21 # x22"
  then have "length (x21 # x22) \<le> length r"
    using length_dropWhile_le [of "\<lambda>x. x \<noteq> RPAREN" r] by simp
  then show "(x22, c # r) \<in> measure length" by simp
qed auto

text \<open>\<open>.replace(/[^\x20-\x7E\n]/g, '')\<close>: only printable ASCII and LF are kept.\<close>

definition printable :: "nat \<Rightarrow> bool" where
  "printable c \<longleftrightarrow> 0x20 \<le> c \<and> c \<le> 0x7E"

definition drop_nonprintable :: "jsstring \<Rightarrow> jsstring" where
  "drop_nonprintable s = filter (\<lambda>c. printable c \<or> c = LF) s"

text \<open>\<open>.replace(/[#*_`~]/g, '')\<close>: the markdown formatting characters are deleted.\<close>

definition is_markdown_char :: "nat \<Rightarrow> bool" where
  "is_markdown_char c \<longleftrightarrow> c = 0x23 \<or> c = 0x2A \<or> c = 0x5F \<or> c = 0x60 \<or> c = 0x7E"

definition strip_markdown_chars :: "jsstring \<Rightarrow> jsstring" where
  "strip_markdown_chars s = filter (\<lambda>c. \<not> is_markdown_char c) s"

text \<open>\<open>.replace(/\s+/g, ' ')\<close>: each maximal run of white space becomes one space.\<close>

function collapse_ws :: "jsstring \<Rightarrow> jsstring" where
  "collapse_ws [] = []"
| "collapse_ws (c # r) =
     (if is_space c then SPACE # collapse_ws (dropWhile is_space r)
      else c # collapse_ws r)"
  by pat_completeness auto
termination
proof (relation "measure length")
  fix c :: nat and r
  have "length (dropWhile is_space r) \<le> length r"
    by (rule length_dropWhile_le)
  then show "(dropWhile is_space r, c # r) \<in> measure length" by simp
qed auto

text \<open>\<open>.replace(/\n+/g, ' ')\<close>: each maximal run of LF becomes one space.\<close>

function newlines_to_space :: "jsstring \<Rightarrow> jsstring" where
  "newlines_to_space [] = []"
| "newlines_to_space (c # r) =
     (if c = LF then SPACE # newlines_to_space (dropWhile (\<lambda>x. x = LF) r)
      else c # newlines_to_space r)"
  by pat_completeness auto
termination
proof (relation "measure length")
  fix c :: nat and r
  have "length (dropWhile (\<lambda>x. x = LF) r) \<le> length r"
    by (rule length_dropWhile_le)
  then show "(dropWhile (\<lambda>x. x = LF) r, c # r) \<in> measure length" by simp
qed auto

text \<open>\<open>.trim()\<close>: white space is stripped from both ends.\<close>

definition trim :: "jsstring \<Rightarrow> jsstring" where
  "trim s = rev (dropWhile is_space (rev (dropWhile is_space s)))"

text \<open>The chain of replacements of lines 84-94, in the order the source applies them.\<close>

definition clean_chain :: "jsstring \<Rightarrow> jsstring" where
  "clean_chain content =
     trim (newlines_to_space (collapse_ws (strip_markdown_chars (drop_nonprintable
       (strip_parens (strip_refs (strip_links (cr_to_lf (crlf_to_lf content)))))))))"

text \<open>Lines 97-100: \<open>substring(0, 2000)\<close> when the cleaned text is longer than 2000.\<close>

definition max_content_length :: nat where
  "max_content_length = 2000"

definition truncate_content :: "jsstring \<Rightarrow> jsstring" where
  "truncate_content s =
     (if length s > max_content_length then take max_content_length s else s)"

text \<open>The value of the variable \<open>cleanContent\<close> when line 103 tests its length.\<close>

definition cleanContent :: "jsstring \<Rightarrow> jsstring" where
  "cleanContent content = truncate_content (clean_chain content)"

text \<open>Line 103: content shorter than 10 code units is skipped.\<close>

definition min_content_length :: nat where
  "min_content_length = 10"

definition too_short :: "jsstring \<Rightarrow> bool" where
  "too_short clean \<longleftrightarrow> length clean < min_content_length"


section \<open>Embedding Adapter (embed/index.ts, lines 111-163)\<close>

text \<open>
  Lines 136-148. \<open>model.run\<close> resolves to an array of numbers or throws; an array is
  truthy in JavaScript, so the guard \<open>output &&\<close> holds for every vector and only the
  length test decides. \<open>slice(0, 1024)\<close> is \<open>take\<close>, and the padding is
  \<open>new Array(1024 - output.length).fill(0)\<close>.
\<close>

definition normalize_width :: "real list \<Rightarrow> real list" where
  "normalize_width output =
     (if length output \<noteq> 1024
      then (if length output > 1024 then take 1024 output
            else output @ replicate (1024 - length output) 0)
      else output)"


text \<open>
  What one pass through the \<open>try\<close> block of the retry loop can do: the constructor
  \<open>new Supabase.ai.Session\<close> throws, or \<open>model.run\<close> throws (after the one second
  the code waits for the worker), or \<open>model.run\<close> returns the model's vector.
\<close>

datatype attempt_result = SessionThrows | RunThrows | Returns "real list"

text \<open>
  What the handler does to the outside, in order. \<open>Settle\<close> is the wait of line 129,
  \<open>Backoff\<close> the wait of line 161 (both in milliseconds); \<open>UpdateIssued\<close> is the
  \<open>update ... eq('id', id)\<close> of lines 167-172 with the value it sends. The last three
  belong to the processing endpoint.
\<close>

datatype event =
    ClientCreated
  | SelectRows "nat list"
  | Attempt nat
  | Settle nat
  | ModelRun nat jsstring
  | Backoff nat
  | UpdateIssued nat "real list option"
  | SelectDocument nat
  | Download string
  | InsertSections nat "jsstring list"

text \<open>
  The externals of the embedding endpoint. The model is a black box: \<open>ai x n text\<close> is the
  outcome of the pass that follows \<open>n\<close> earlier passes, so a model that fails twice and then
  succeeds is as expressible as a deterministic one. \<open>select_error\<close> is the error of the
  row selection (if any), \<open>update_fails x id v\<close> says whether the database reports an error
  for the update of row \<open>id\<close> with \<open>v\<close>.
\<close>

record externals =
  select_error :: "string option"
  ai :: "nat \<Rightarrow> jsstring \<Rightarrow> attempt_result"
  update_fails :: "nat \<Rightarrow> real list option \<Rightarrow> bool"

definition maxRetries :: nat where
  "maxRetries = 3"

fun attempt_events :: "nat \<Rightarrow> jsstring \<Rightarrow> attempt_result \<Rightarrow> event list" where
  "attempt_events rid text SessionThrows = [Attempt rid]"
| "attempt_events rid text r = [Attempt rid, Settle 1000, ModelRun rid text]"

text \<open>
  How the retry loop is left: by the \<open>throw aiError\<close> of line 157, or past its end with
  the variable \<open>output\<close>, which is \<open>undefined\<close> (\<open>None\<close>) if no pass assigned it.
\<close>

datatype loop_exit = Threw | Output "real list option"

text \<open>
  Lines 116-163: \<open>while (retryCount < maxRetries)\<close>. \<open>n\<close> counts the passes made so far;
  the result is how the loop is left, the new count, and the events of the loop.
\<close>

function retry_loop ::
  "externals \<Rightarrow> nat \<Rightarrow> jsstring \<Rightarrow> nat \<Rightarrow> nat \<Rightarrow> loop_exit \<times> nat \<times> event list" where
  "retry_loop x rid text retryCount n =
     (if retryCount < maxRetries
      then (case ai x n text of
              Returns out \<Rightarrow>
                (Output (Some (normalize_width out)), n + 1, attempt_events rid text (Returns out))
            | failure \<Rightarrow>
                (if retryCount + 1 \<ge> maxRetries
                 then (Threw, n + 1, attempt_events rid text failure)
                 else (case retry_loop x rid text (retryCount + 1) (n + 1) of
                         (exit, n', evs) \<Rightarrow>
                           (exit, n',
                            attempt_events rid text failure
                              @ [Backoff (3000 * (retryCount + 1))] @ evs))))
      else (Output None, n, []))"
  by pat_completeness auto
termination
  by (relation "measure (\<lambda>(x, rid, text, retryCount, n). maxRetries - retryCount)") auto

section \<open>Batch Runner (embed/index.ts, lines 57-201)\<close>

text \<open>
  The table the request names, seen through the three columns the handler uses: the
  primary key \<open>id\<close> (the key of the map), the content column (\<open>None\<close> is SQL null) and
  the embedding column.
\<close>

record section_row =
  content_col :: "jsstring option"
  embedding_col :: "real list option"

type_synonym section_table = "nat \<rightharpoonup> section_row"

record world =
  table :: section_table
  attempts :: nat
  trace :: "event list"

text \<open>
  Lines 59-63: the rows whose id is among \<open>ids\<close> and whose embedding is null, each with its
  id and content. SQL fixes no order; the rows are taken in the order of \<open>ids\<close>.
\<close>

definition select_rows :: "section_table \<Rightarrow> nat list \<Rightarrow> (nat \<times> jsstring option) list" where
  "select_rows t ids =
     List.map_filter
       (\<lambda>i. case t i of
               None \<Rightarrow> None
             | Some r \<Rightarrow> if embedding_col r = None then Some (i, content_col r) else None)
       (remdups ids)"

text \<open>Lines 167-172: the update sets the embedding of the row with this id, if there is one.\<close>

definition update_embedding :: "section_table \<Rightarrow> nat \<Rightarrow> real list option \<Rightarrow> section_table" where
  "update_embedding t i v =
     (case t i of None \<Rightarrow> t | Some r \<Rightarrow> t(i \<mapsto> r\<lparr>embedding_col := v\<rparr>))"

text \<open>
  The body of \<open>for (const row of rows)\<close>, lines 73-195. \<open>!content\<close> holds for null and for
  the empty string. A thrown error is caught at line 184 and the loop goes on.
\<close>

definition process_row :: "externals \<Rightarrow> nat \<times> jsstring option \<Rightarrow> world \<Rightarrow> world" where
  "process_row x row w =
     (case row of
        (rid, None) \<Rightarrow> w
      | (rid, Some c) \<Rightarrow>
          if c = [] then w
          else if too_short (cleanContent c) then w
          else (case retry_loop x rid (cleanContent c) 0 (attempts w) of
                  (Threw, n', evs) \<Rightarrow> w\<lparr>attempts := n', trace := trace w @ evs\<rparr>
                | (Output out, n', evs) \<Rightarrow>
                    w\<lparr>table := (if update_fails x rid out then table w
                                 else update_embedding (table w) rid out),
                       attempts := n',
                       trace := trace w @ evs @ [UpdateIssued rid out]\<rparr>))"

fun process_rows :: "externals \<Rightarrow> (nat \<times> jsstring option) list \<Rightarrow> world \<Rightarrow> world" where
  "process_rows x [] w = w"
| "process_rows x (row # rows) w = process_rows x rows (process_row x row w)"

section \<open>The embedding endpoint (embed/index.ts, lines 17-202)\<close>

record config =
  supabaseUrl :: "string option"
  supabaseAnonKey :: "string option"

text \<open>\<open>!s\<close> for a value that is a string, null or undefined.\<close>

definition falsy :: "string option \<Rightarrow> bool" where
  "falsy s \<longleftrightarrow> s = None \<or> s = Some []"

record request =
  http_method :: string
  authorization :: "string option"

record embed_request = request +
  ids :: "nat list"
  table_name :: string
  contentColumn :: string
  embeddingColumn :: string

datatype response_body = Plain string | ErrorJson string | NoBody

record response =
  status :: nat
  body :: response_body
  headers :: "(string \<times> string) list"

definition corsHeaders :: "(string \<times> string) list" where
  "corsHeaders =
     [(''Access-Control-Allow-Origin'', ''*''),
      (''Access-Control-Allow-Headers'', ''authorization, x-client-info, apikey, content-type''),
      (''Access-Control-Allow-Methods'', ''POST, OPTIONS'')]"

definition error_response :: "string \<Rightarrow> response" where
  "error_response msg =
     \<lparr>status = 500, body = ErrorJson msg, headers = [(''Content-Type'', ''application/json'')]\<rparr>"

definition no_content_response :: response where
  "no_content_response =
     \<lparr>status = 204, body = NoBody,
      headers = corsHeaders @ [(''Content-Type'', ''application/json'')]\<rparr>"

definition preflight_response :: response where
  "preflight_response = \<lparr>status = 200, body = Plain ''ok'', headers = corsHeaders\<rparr>"

text \<open>
  The handler of \<open>Deno.serve\<close>, for a request whose body parses to the four fields. The
  world is the addressed table, the count of model passes and the events so far.
\<close>

definition embed_handler ::
  "config \<Rightarrow> externals \<Rightarrow> embed_request \<Rightarrow> world \<Rightarrow> response \<times> world" where
  "embed_handler cfg x req w =
     (if http_method req = ''OPTIONS'' then (preflight_response, w)
      else if falsy (supabaseUrl cfg) \<or> falsy (supabaseAnonKey cfg)
      then (error_response ''Missing environment variables.'', w)
      else if falsy (authorization req)
      then (error_response ''No authorization header passed'', w)
      else (case select_error x of
              Some e \<Rightarrow>
                (error_response e,
                 w\<lparr>trace := trace w @ [ClientCreated, SelectRows (ids req)]\<rparr>)
            | None \<Rightarrow>
                (no_content_response,
                 process_rows x (select_rows (table w) (ids req))
                   (w\<lparr>trace := trace w @ [ClientCreated, SelectRows (ids req)]\<rparr>))))"

section \<open>Reading the events\<close>

text \<open>
  The waits of line 161 among some events, in order; the number of passes through the
  \<open>try\<close> block; whether a pass failed; the row an event is about; the events a step
  added; and the rows the loop leaves before the model is called (lines 75 and 103).
\<close>

definition backoff_delays :: "event list \<Rightarrow> nat list" where
  "backoff_delays evs = List.map_filter (\<lambda>e. case e of Backoff d \<Rightarrow> Some d | _ \<Rightarrow> None) evs"

definition attempts_made :: "event list \<Rightarrow> nat" where
  "attempts_made evs = length (filter (\<lambda>e. case e of Attempt i \<Rightarrow> True | _ \<Rightarrow> False) evs)"


fun concerns :: "event \<Rightarrow> nat option" where
  "concerns (Attempt i) = Some i"
| "concerns (ModelRun i t) = Some i"
| "concerns (UpdateIssued i v) = Some i"
| "concerns e = None"

definition new_events :: "world \<Rightarrow> world \<Rightarrow> event list" where
  "new_events w w' = drop (length (trace w)) (trace w')"

definition skipped :: "jsstring option \<Rightarrow> bool" where
  "skipped c \<longleftrightarrow> (case c of None \<Rightarrow> True | Some s \<Rightarrow> s = [] \<or> too_short (cleanContent s))"

section \<open>Concrete inputs\<close>

text \<open>A configuration, a request, tables and models for the examples below.\<close>

definition example_config :: config where
  "example_config = \<lparr>supabaseUrl = Some ''http://kong:8000'', supabaseAnonKey = Some ''anon-key''\<rparr>"

definition example_request :: embed_request where
  "example_request =
     \<lparr>http_method = ''POST'', authorization = Some ''Bearer token'', ids = [7],
      table_name = ''document_sections'', contentColumn = ''content'',
      embeddingColumn = ''embedding''\<rparr>"

definition example_content :: jsstring where
  "example_content = js ''hello embedding world''"

definition unembedded_world :: world where
  "unembedded_world =
     \<lparr>table = [7 \<mapsto> \<lparr>content_col = Some example_content, embedding_col = None\<rparr>],
      attempts = 0, trace = []\<rparr>"

definition embedded_world :: world where
  "embedded_world =
     \<lparr>table = [7 \<mapsto> \<lparr>content_col = Some example_content,
                       embedding_col = Some (replicate 1024 (1 / 4))\<rparr>],
      attempts = 0, trace = []\<rparr>"

definition short_world :: world where
  "short_world =
     \<lparr>table = [7 \<mapsto> \<lparr>content_col = Some (js ''(see it) [1]''), embedding_col = None\<rparr>],
      attempts = 0, trace = []\<rparr>"

definition steady_model :: externals where
  "steady_model =
     \<lparr>select_error = None, ai = (\<lambda>n t. Returns (replicate 384 (1 / 2))),
      update_fails = (\<lambda>i v. False)\<rparr>"





section \<open>The processing endpoint (process/index.ts)\<close>

text \<open>
  The view \<open>documents_with_storage_path\<close> by document id, the bucket \<open>files\<close> by object
  path, and the rows of \<open>document_sections\<close> this endpoint inserts (document id and
  content).
\<close>

record document_view =
  document_name :: string
  storage_object_path :: "string option"

record process_world =
  documents_with_storage_path :: "nat \<rightharpoonup> document_view"
  files :: "string \<rightharpoonup> jsstring"
  document_sections :: "(nat \<times> jsstring) list"
  events :: "event list"

text \<open>
  \<open>processMarkdown\<close> is imported from \<open>_lib/markdown-parser.ts\<close>, which is a black box
  here: a parameter that gives the contents of the sections of a file.
\<close>

record process_externals =
  processMarkdown :: "jsstring \<Rightarrow> jsstring list"
  insert_error :: bool

record process_request = request +
  document_id :: nat

definition process_handler ::
  "config \<Rightarrow> process_externals \<Rightarrow> process_request \<Rightarrow> process_world \<Rightarrow> response \<times> process_world" where
  "process_handler cfg x req w =
     (if http_method req = ''OPTIONS'' then (preflight_response, w)
      else if falsy (supabaseUrl cfg) \<or> falsy (supabaseAnonKey cfg)
      then (error_response ''Missing environment variables.'', w)
      else if falsy (authorization req)
      then (error_response ''No authorization header passed'', w)
      else
        (let w1 = w\<lparr>events := events w @ [ClientCreated, SelectDocument (document_id req)]\<rparr>
         in case documents_with_storage_path w (document_id req) of
              None \<Rightarrow> (error_response ''Failed to find uploaded document'', w1)
            | Some document \<Rightarrow>
                if falsy (storage_object_path document)
                then (error_response ''Failed to find uploaded document'', w1)
                else
                  (let path = the (storage_object_path document);
                       w2 = w1\<lparr>events := events w1 @ [Download path]\<rparr>
                   in case files w path of
                        None \<Rightarrow> (error_response ''Failed to download storage object'', w2)
                      | Some fileContents \<Rightarrow>
                          (let sections = processMarkdown x fileContents;
                               w3 = w2\<lparr>events := events w2
                                      @ [InsertSections (document_id req) sections]\<rparr>
                           in if insert_error x
                              then (error_response ''Failed to save document sections'', w3)
                              else (no_content_response,
                                    w3\<lparr>document_sections := document_sections w3
                                         @ map (\<lambda>c. (document_id req, c)) sections\<rparr>)))))"

section \<open>Ingestion Trigger (the migration, \<open>private.handle_storage_update\<close>)\<close>


text \<open>
  A row of \<open>documents\<close> (\<open>created_at\<close> left out), the request \<open>net.http_post\<close>
  queues, and the database the trigger works on. The identity column takes its values from a
  sequence; \<open>documents_id_seq\<close> is the next one.
\<close>

record document =
  doc_id :: nat
  doc_name :: string
  storage_object_id :: string
  created_by :: string








section \<open>Concrete inputs for the trigger and the processing endpoint\<close>





definition example_process_request :: process_request where
  "example_process_request =
     \<lparr>http_method = ''POST'', authorization = None, document_id = 3\<rparr>"

definition example_process_world :: process_world where
  "example_process_world =
     \<lparr>documents_with_storage_path =
        [3 \<mapsto> \<lparr>document_name = ''notes.md'', storage_object_path = Some ''folder-1/notes.md''\<rparr>],
      files = [''folder-1/notes.md'' \<mapsto> js ''hello embedding world''],
      document_sections = [], events = []\<rparr>"

definition one_section :: process_externals where
  "one_section = \<lparr>processMarkdown = (\<lambda>s. [s]), insert_error = False\<rparr>"

section \<open>Properties of the Content Sanitizer\<close>

























section \<open>Properties of the Embedding Adapter\<close>

text \<open>
  Claim C2. For every model output vector the normalization step returns a vector of
  length exactly 1024: an output longer than 1024 is cut to its first 1024 entries, a
  shorter one is padded on the right with zeros, and an output of length 384 becomes its
  384 values followed by 640 zeros.
\<close>

theorem normalize_width_1024:
  "length (normalize_width v) = 1024
   \<and> (length v > 1024 \<longrightarrow> normalize_width v = take 1024 v)
   \<and> (length v < 1024 \<longrightarrow> normalize_width v = v @ replicate (1024 - length v) 0)
   \<and> (length v = 384 \<longrightarrow> normalize_width v = v @ replicate 640 0)"
  by (simp add: normalize_width_def)

theorem normalize_width_1024_witness:
  "length (replicate 384 (1 / 2) :: real list) = 384
   \<and> normalize_width (replicate 384 (1 / 2)) = replicate 384 (1 / 2) @ replicate 640 0
   \<and> length (normalize_width (replicate 384 (1 / 2))) = 1024
   \<and> length (replicate 2000 (1 / 3) :: real list) > 1024
   \<and> normalize_width (replicate 2000 (1 / 3)) = take 1024 (replicate 2000 (1 / 3))
   \<and> length (normalize_width (replicate 2000 (1 / 3))) = 1024"
  using normalize_width_1024 [of "replicate 384 (1 / 2)"]
    normalize_width_1024 [of "replicate 2000 (1 / 3)"]
  by simp

section \<open>Properties of the retry loop and the batch\<close>

text \<open>
  The loop starts with \<open>retryCount = 0\<close> and makes at most three passes, so it unrolls
  into the outcomes of three passes.
\<close>

declare retry_loop.simps [simp del]

lemma retry_loop_unrolled:
  "retry_loop x rid text 0 n =
     (case ai x n text of
        Returns v \<Rightarrow> (Output (Some (normalize_width v)), n + 1, attempt_events rid text (Returns v))
      | f1 \<Rightarrow>
         (case ai x (n + 1) text of
            Returns v \<Rightarrow> (Output (Some (normalize_width v)), n + 2,
               attempt_events rid text f1 @ [Backoff 3000] @ attempt_events rid text (Returns v))
          | f2 \<Rightarrow>
             (case ai x (n + 2) text of
                Returns v \<Rightarrow> (Output (Some (normalize_width v)), n + 3,
                   attempt_events rid text f1 @ [Backoff 3000] @ attempt_events rid text f2
                     @ [Backoff 6000] @ attempt_events rid text (Returns v))
              | f3 \<Rightarrow> (Threw, n + 3,
                   attempt_events rid text f1 @ [Backoff 3000] @ attempt_events rid text f2
                     @ [Backoff 6000] @ attempt_events rid text f3))))"
  by (simp add: retry_loop.simps [where retryCount = 0] retry_loop.simps [where retryCount = "Suc 0"]
      retry_loop.simps [where retryCount = "Suc (Suc 0)"] maxRetries_def split: attempt_result.splits)

lemma backoff_delays_simps:
  "backoff_delays [] = []"
  "backoff_delays (Backoff d # evs) = d # backoff_delays evs"
  "backoff_delays (Attempt i # evs) = backoff_delays evs"
  "backoff_delays (Settle d # evs) = backoff_delays evs"
  "backoff_delays (ModelRun i t # evs) = backoff_delays evs"
  "backoff_delays (UpdateIssued i v # evs) = backoff_delays evs"
  by (simp_all add: backoff_delays_def map_filter_simps)

lemma backoff_delays_append:
  "backoff_delays (es @ fs) = backoff_delays es @ backoff_delays fs"
  by (simp add: backoff_delays_def map_filter_def)

lemma attempts_made_simps:
  "attempts_made [] = 0"
  "attempts_made (Attempt i # evs) = Suc (attempts_made evs)"
  "attempts_made (Backoff d # evs) = attempts_made evs"
  "attempts_made (Settle d # evs) = attempts_made evs"
  "attempts_made (ModelRun i t # evs) = attempts_made evs"
  "attempts_made (UpdateIssued i v # evs) = attempts_made evs"
  by (simp_all add: attempts_made_def)

lemma attempts_made_append:
  "attempts_made (es @ fs) = attempts_made es + attempts_made fs"
  by (simp add: attempts_made_def)

lemma attempt_events_facts:
  "attempts_made (attempt_events rid text r) = 1"
  "backoff_delays (attempt_events rid text r) = []"
  "e \<in> set (attempt_events rid text r) \<Longrightarrow> concerns e = None \<or> concerns e = Some rid"
  "UpdateIssued i v \<notin> set (attempt_events rid text r)"
  by (cases r; auto simp: attempts_made_simps backoff_delays_simps)+

lemma upt_small: "[Suc 0..<Suc 0] = []" "[Suc 0..<2] = [Suc 0]" "[Suc 0..<3] = [Suc 0, 2]"
  by (simp_all add: upt_rec)

lemma retry_loop_bounds:
  assumes "retry_loop x rid text 0 n = (exit, n', evs)"
  shows "n < n'" and "n' \<le> n + 3" and "attempts_made evs = n' - n"
    and "backoff_delays evs = map (\<lambda>k. 3000 * k) [1 ..< n' - n]"
    and "\<forall>e \<in> set evs. concerns e = None \<or> concerns e = Some rid"
    and "UpdateIssued i v \<notin> set evs"
proof -
  note facts = retry_loop_unrolled attempts_made_append backoff_delays_append
    attempt_events_facts backoff_delays_simps attempts_made_simps upt_small
  from assms show "n < n'"
    by (auto simp: retry_loop_unrolled split: attempt_result.splits)
  from assms show "n' \<le> n + 3"
    by (auto simp: retry_loop_unrolled split: attempt_result.splits)
  from assms show "attempts_made evs = n' - n"
    by (auto simp: facts split: attempt_result.splits)
  from assms show "backoff_delays evs = map (\<lambda>k. 3000 * k) [1 ..< n' - n]"
    by (auto simp: facts split: attempt_result.splits)
  from assms show "\<forall>e \<in> set evs. concerns e = None \<or> concerns e = Some rid"
    by (auto simp: retry_loop_unrolled split: attempt_result.splits
        dest: attempt_events_facts(3))
  from assms show "UpdateIssued i v \<notin> set evs"
    by (auto simp: retry_loop_unrolled attempt_events_facts(4) split: attempt_result.splits)
qed



text \<open>
  Started at 0 the loop is left by a success or by the throw, never past its end with
  \<open>output\<close> undefined.
\<close>

lemma retry_loop_defined:
  "retry_loop x rid text 0 n = (Output out, n', evs) \<Longrightarrow> out \<noteq> None"
  by (auto simp: retry_loop_unrolled split: attempt_result.splits)

lemma new_events_append: "trace w' = trace w @ evs \<Longrightarrow> new_events w w' = evs"
  by (simp add: new_events_def)

lemma update_embedding_other: "i \<noteq> j \<Longrightarrow> update_embedding t j v i = t i"
  by (simp add: update_embedding_def split: option.splits)

lemma process_row_skipped: "skipped c \<Longrightarrow> process_row x (j, c) w = w"
  by (auto simp: process_row_def skipped_def split: option.splits)

lemma process_row_run:
  assumes "c \<noteq> []" and "\<not> too_short (cleanContent c)"
    and "retry_loop x rid (cleanContent c) 0 (attempts w) = (exit, n', evs)"
  shows "process_row x (rid, Some c) w =
     (case exit of
        Threw \<Rightarrow> w\<lparr>attempts := n', trace := trace w @ evs\<rparr>
      | Output out \<Rightarrow>
          w\<lparr>table := (if update_fails x rid out then table w
                       else update_embedding (table w) rid out),
             attempts := n',
             trace := trace w @ evs @ [UpdateIssued rid out]\<rparr>)"
  using assms by (cases exit) (simp_all add: process_row_def)

lemma process_row_trace:
  "\<exists>evs. trace (process_row x (j, c) w) = trace w @ evs
     \<and> (\<forall>e \<in> set evs. concerns e = None \<or> concerns e = Some j)"
proof (cases "skipped c")
  case True
  then show ?thesis by (simp add: process_row_skipped)
next
  case False
  then obtain s where c: "c = Some s" "s \<noteq> []" "\<not> too_short (cleanContent s)"
    by (auto simp: skipped_def split: option.splits)
  obtain exit n' evs where
    r: "retry_loop x j (cleanContent s) 0 (attempts w) = (exit, n', evs)"
    by (cases "retry_loop x j (cleanContent s) 0 (attempts w)") auto
  have "\<forall>e \<in> set evs. concerns e = None \<or> concerns e = Some j"
    using retry_loop_bounds(5) [OF r] .
  then show ?thesis
    using c process_row_run [OF c(2) c(3) r]
    by (cases exit) auto
qed

lemma process_row_table_other:
  "i \<noteq> j \<Longrightarrow> table (process_row x (j, c) w) i = table w i"
proof (cases "skipped c")
  case True
  then show ?thesis by (simp add: process_row_skipped)
next
  case False
  assume ij: "i \<noteq> j"
  from False obtain s where c: "c = Some s" "s \<noteq> []" "\<not> too_short (cleanContent s)"
    by (auto simp: skipped_def split: option.splits)
  obtain exit n' evs where
    r: "retry_loop x j (cleanContent s) 0 (attempts w) = (exit, n', evs)"
    by (cases "retry_loop x j (cleanContent s) 0 (attempts w)") auto
  show ?thesis
    using c ij process_row_run [OF c(2) c(3) r]
    by (cases exit) (auto simp: update_embedding_other)
qed

lemma process_rows_frame:
  assumes "\<forall>(j, c) \<in> set rows. j = i \<longrightarrow> skipped c"
  shows "table (process_rows x rows w) i = table w i
     \<and> (\<exists>evs. trace (process_rows x rows w) = trace w @ evs
          \<and> (\<forall>e \<in> set evs. concerns e \<noteq> Some i))"
  using assms
proof (induction rows arbitrary: w)
  case Nil
  then show ?case by simp
next
  case (Cons row rows)
  obtain j c where row: "row = (j, c)" by (cases row)
  let ?w1 = "process_row x (j, c) w"
  from Cons.prems have rest: "\<forall>(j, c) \<in> set rows. j = i \<longrightarrow> skipped c" by simp
  note ih = Cons.IH [OF rest, of ?w1]
  have step: "table ?w1 i = table w i
     \<and> (\<exists>evs. trace ?w1 = trace w @ evs \<and> (\<forall>e \<in> set evs. concerns e \<noteq> Some i))"
  proof (cases "j = i")
    case True
    with Cons.prems row have "skipped c" by simp
    then show ?thesis by (simp add: process_row_skipped)
  next
    case False
    then have "table ?w1 i = table w i" by (simp add: process_row_table_other)
    moreover have "\<exists>evs. trace ?w1 = trace w @ evs \<and> (\<forall>e \<in> set evs. concerns e \<noteq> Some i)"
      using process_row_trace [of x j c w] False by fastforce
    ultimately show ?thesis by simp
  qed
  from step obtain evs1 where e1: "trace ?w1 = trace w @ evs1"
    "\<forall>e \<in> set evs1. concerns e \<noteq> Some i" by blast
  from ih obtain evs2 where e2: "trace (process_rows x rows ?w1) = trace ?w1 @ evs2"
    "\<forall>e \<in> set evs2. concerns e \<noteq> Some i" by blast
  have "trace (process_rows x (row # rows) w) = trace w @ (evs1 @ evs2)"
    using e1 e2 row by simp
  moreover have "\<forall>e \<in> set (evs1 @ evs2). concerns e \<noteq> Some i"
    using e1 e2 by auto
  moreover have "table (process_rows x (row # rows) w) i = table w i"
    using ih step row by simp
  ultimately show ?case by blast
qed

lemma select_rows_sound:
  "(j, c) \<in> set (select_rows t wanted) \<Longrightarrow>
     j \<in> set wanted \<and> (\<exists>r. t j = Some r \<and> embedding_col r = None \<and> content_col r = c)"
  by (auto simp: select_rows_def List.map_filter_def split: option.splits if_splits)

lemma embed_handler_frame:
  assumes "table w i = Some r" and "embedding_col r \<noteq> None \<or> skipped (content_col r)"
  shows "table (snd (embed_handler cfg x req w)) i = Some r
     \<and> (\<forall>e \<in> set (new_events w (snd (embed_handler cfg x req w))). concerns e \<noteq> Some i)"
proof -
  let ?w0 = "w\<lparr>trace := trace w @ [ClientCreated, SelectRows (ids req)]\<rparr>"
  let ?rows = "select_rows (table w) (ids req)"
  have sel: "\<forall>(j, c) \<in> set ?rows. j = i \<longrightarrow> skipped c"
    using assms by (auto dest!: select_rows_sound)
  from process_rows_frame [OF sel, of x ?w0]
  obtain evs where t: "table (process_rows x ?rows ?w0) i = table w i"
    and e: "trace (process_rows x ?rows ?w0) = trace w @ [ClientCreated, SelectRows (ids req)] @ evs"
    and c: "\<forall>e \<in> set evs. concerns e \<noteq> Some i"
    by auto
  have n: "new_events w (process_rows x ?rows ?w0) = [ClientCreated, SelectRows (ids req)] @ evs"
    using e by (rule new_events_append)
  show ?thesis
    using assms(1) t n c
    by (auto simp: embed_handler_def new_events_def split: option.splits)
qed

lemma clean_example_content: "cleanContent example_content = example_content"
  by (simp add: cleanContent_def truncate_content_def max_content_length_def clean_chain_def
      example_content_def js_def match_link_def cr_to_lf_def drop_nonprintable_def
      printable_def strip_markdown_chars_def is_markdown_char_def is_space_def trim_def)

lemma example_content_long: "example_content \<noteq> [] \<and> \<not> too_short example_content"
  by (simp add: example_content_def js_def too_short_def min_content_length_def)

lemma clean_short_content: "cleanContent (js ''(see it) [1]'') = []"
  by (simp add: cleanContent_def truncate_content_def max_content_length_def clean_chain_def
      js_def match_link_def cr_to_lf_def drop_nonprintable_def
      printable_def strip_markdown_chars_def is_markdown_char_def is_space_def trim_def)

lemma select_unembedded:
  "select_rows (table unembedded_world) (ids example_request) = [(7, Some example_content)]"
  by (simp add: select_rows_def unembedded_world_def example_request_def)

lemma select_embedded: "select_rows (table embedded_world) (ids example_request) = []"
  by (simp add: select_rows_def embedded_world_def example_request_def)

lemma process_row_steady:
  "process_row steady_model (7, Some example_content) w =
     w\<lparr>table := update_embedding (table w) 7 (Some (replicate 384 (1 / 2) @ replicate 640 0)),
       attempts := attempts w + 1,
       trace := trace w @ [Attempt 7, Settle 1000, ModelRun 7 example_content,
         UpdateIssued 7 (Some (replicate 384 (1 / 2) @ replicate 640 0))]\<rparr>"
  using example_content_long
  by (simp add: process_row_def clean_example_content retry_loop_unrolled steady_model_def
      normalize_width_def)


lemma embed_handler_started:
  assumes "http_method req \<noteq> ''OPTIONS''"
    and "\<not> falsy (supabaseUrl cfg)" and "\<not> falsy (supabaseAnonKey cfg)"
    and "\<not> falsy (authorization req)" and "select_error x = None"
  shows "embed_handler cfg x req w =
     (no_content_response,
      process_rows x (select_rows (table w) (ids req))
        (w\<lparr>trace := trace w @ [ClientCreated, SelectRows (ids req)]\<rparr>))"
  using assms by (simp add: embed_handler_def)

lemma example_passes:
  "http_method example_request \<noteq> ''OPTIONS''"
  "\<not> falsy (supabaseUrl example_config)"
  "\<not> falsy (supabaseAnonKey example_config)"
  "\<not> falsy (authorization example_request)"
  by (simp_all add: example_request_def example_config_def falsy_def)





lemma first_run_steady:
  "table (snd (embed_handler example_config steady_model example_request unembedded_world)) 7
     = Some \<lparr>content_col = Some example_content,
             embedding_col = Some (replicate 384 (1 / 2) @ replicate 640 0)\<rparr>"
proof -
  have "select_error steady_model = None" by (simp add: steady_model_def)
  then show ?thesis
    using example_passes
    by (simp add: embed_handler_started select_unembedded process_row_steady)
      (simp add: update_embedding_def unembedded_world_def)
qed

section \<open>The stored width and the schema\<close>


section \<open>Rows that already have an embedding\<close>

lemma embedded_row: "table embedded_world 7
    = Some \<lparr>content_col = Some example_content, embedding_col = Some (replicate 1024 (1 / 4))\<rparr>"
  by (simp add: embedded_world_def)

lemma second_run_embedded:
  "snd (embed_handler example_config steady_model example_request embedded_world)
     = embedded_world\<lparr>trace := trace embedded_world @ [ClientCreated, SelectRows [7]]\<rparr>"
proof -
  have "select_error steady_model = None" by (simp add: steady_model_def)
  then show ?thesis
    using example_passes
    by (simp add: embed_handler_started select_embedded) (simp add: example_request_def)
qed

text \<open>
  Claim C6 says that a second run overwrites the embedding of a row that has one and whose
  id is among the ids of the request. Here row 7 has an embedding, its id is requested and
  the model would give another vector; the run issues the selection and nothing else, and
  the row keeps its embedding.
\<close>

theorem rerun_overwrites_counterexample:
  "7 \<in> set (ids example_request)
   \<and> table embedded_world 7
       = Some \<lparr>content_col = Some example_content, embedding_col = Some (replicate 1024 (1 / 4))\<rparr>
   \<and> table (snd (embed_handler example_config steady_model example_request embedded_world)) 7
       = Some \<lparr>content_col = Some example_content, embedding_col = Some (replicate 1024 (1 / 4))\<rparr>
   \<and> new_events embedded_world
        (snd (embed_handler example_config steady_model example_request embedded_world))
       = [ClientCreated, SelectRows [7]]
   \<and> ai steady_model 0 (cleanContent example_content) = Returns (replicate 384 (1 / 2))
   \<and> normalize_width (replicate 384 (1 / 2)) \<noteq> replicate 1024 (1 / 4)"
proof -
  have a: "hd (normalize_width (replicate 384 (1 / 2))) = 1 / 2"
    by (simp add: normalize_width_def hd_append)
  have b: "hd (replicate 1024 (1 / 4 :: real)) = 1 / 4"
    by simp
  have ne: "normalize_width (replicate 384 (1 / 2)) \<noteq> replicate 1024 (1 / 4)"
  proof
    assume "normalize_width (replicate 384 (1 / 2)) = replicate 1024 (1 / 4)"
    then have "hd (normalize_width (replicate 384 (1 / 2))) = hd (replicate 1024 (1 / 4 :: real))"
      by simp
    with a b show False by simp
  qed
  have ev: "new_events embedded_world
      (snd (embed_handler example_config steady_model example_request embedded_world))
      = [ClientCreated, SelectRows [7]]"
    by (simp add: second_run_embedded new_events_def)
  have t: "table (snd (embed_handler example_config steady_model example_request embedded_world)) 7
      = Some \<lparr>content_col = Some example_content, embedding_col = Some (replicate 1024 (1 / 4))\<rparr>"
    by (simp add: second_run_embedded embedded_row)
  have i: "7 \<in> set (ids example_request)" by (simp add: example_request_def)
  have m: "ai steady_model 0 (cleanContent example_content) = Returns (replicate 384 (1 / 2))"
    by (simp add: steady_model_def)
  from i embedded_row t ev m ne show ?thesis by (intro conjI)
qed

text \<open>
  Claim C6, amended. A row whose embedding is not null is not among the selected rows,
  whatever the ids of the request: the run leaves the row as it is, and no event of the
  run (model pass or update) is about it.
\<close>

theorem embedded_row_left_alone:
  assumes "table w i = Some r" and "embedding_col r \<noteq> None"
  shows "i \<notin> fst ` set (select_rows (table w) (ids req))
     \<and> table (snd (embed_handler cfg x req w)) i = Some r
     \<and> (\<forall>e \<in> set (new_events w (snd (embed_handler cfg x req w))). concerns e \<noteq> Some i)"
proof -
  have "i \<notin> fst ` set (select_rows (table w) (ids req))"
    using assms by (auto dest!: select_rows_sound)
  moreover have "embedding_col r \<noteq> None \<or> skipped (content_col r)"
    using assms(2) by simp
  ultimately show ?thesis
    using embed_handler_frame [OF assms(1), of cfg x req] by simp
qed

theorem embedded_row_left_alone_witness:
  "table embedded_world 7
     = Some \<lparr>content_col = Some example_content, embedding_col = Some (replicate 1024 (1 / 4))\<rparr>
   \<and> embedding_col \<lparr>content_col = Some example_content,
         embedding_col = Some (replicate 1024 (1 / 4))\<rparr> \<noteq> None
   \<and> 7 \<notin> fst ` set (select_rows (table embedded_world) (ids example_request))
   \<and> table (snd (embed_handler example_config steady_model example_request embedded_world)) 7
       = Some \<lparr>content_col = Some example_content, embedding_col = Some (replicate 1024 (1 / 4))\<rparr>
   \<and> list_all (\<lambda>e. concerns e \<noteq> Some 7) (new_events embedded_world
        (snd (embed_handler example_config steady_model example_request embedded_world)))"
proof -
  have h: "embedding_col \<lparr>content_col = Some example_content,
         embedding_col = Some (replicate 1024 (1 / 4))\<rparr> \<noteq> None"
    by simp
  note t = embedded_row_left_alone [OF embedded_row h,
      where req = example_request and cfg = example_config and x = steady_model]
  from t have a: "7 \<notin> fst ` set (select_rows (table embedded_world) (ids example_request))"
    by (elim conjE)
  from t have b: "table (snd (embed_handler example_config steady_model example_request
      embedded_world)) 7
      = Some \<lparr>content_col = Some example_content, embedding_col = Some (replicate 1024 (1 / 4))\<rparr>"
    by (elim conjE)
  have c: "list_all (\<lambda>e. concerns e \<noteq> Some 7) (new_events embedded_world
        (snd (embed_handler example_config steady_model example_request embedded_world)))"
    unfolding list_all_iff using t by (elim conjE)
  from embedded_row h a b c show ?thesis by (intro conjI)
qed

text \<open>
  Claim C7. A row that has an embedding after a first run of the batch has the same
  embedding after a second run, whatever the model and the request of the second run.
\<close>

theorem second_run_keeps_embedding:
  assumes "table (snd (embed_handler cfg x req w)) i = Some r" and "embedding_col r = Some v"
  shows "table (snd (embed_handler cfg x' req' (snd (embed_handler cfg x req w)))) i = Some r
     \<and> map_option embedding_col
          (table (snd (embed_handler cfg x' req' (snd (embed_handler cfg x req w)))) i)
        = Some (Some v)"
proof -
  have "embedding_col r \<noteq> None \<or> skipped (content_col r)"
    using assms(2) by simp
  then have "table (snd (embed_handler cfg x' req' (snd (embed_handler cfg x req w)))) i = Some r"
    using embed_handler_frame [OF assms(1), of cfg x' req'] by simp
  then show ?thesis using assms(2) by simp
qed

theorem second_run_keeps_embedding_witness:
  "table (snd (embed_handler example_config steady_model example_request unembedded_world)) 7
     = Some \<lparr>content_col = Some example_content,
             embedding_col = Some (replicate 384 (1 / 2) @ replicate 640 0)\<rparr>
   \<and> embedding_col \<lparr>content_col = Some example_content,
         embedding_col = Some (replicate 384 (1 / 2) @ replicate 640 0)\<rparr>
       = Some (replicate 384 (1 / 2) @ replicate 640 0)
   \<and> table (snd (embed_handler example_config steady_model example_request
         (snd (embed_handler example_config steady_model example_request unembedded_world)))) 7
       = Some \<lparr>content_col = Some example_content,
               embedding_col = Some (replicate 384 (1 / 2) @ replicate 640 0)\<rparr>"
proof -
  have h: "embedding_col \<lparr>content_col = Some example_content,
         embedding_col = Some (replicate 384 (1 / 2) @ replicate 640 0)\<rparr>
       = Some (replicate 384 (1 / 2) @ replicate 640 0)"
    by simp
  note t = second_run_keeps_embedding [OF first_run_steady h,
      where x' = steady_model and req' = example_request]
  from t have "table (snd (embed_handler example_config steady_model example_request
         (snd (embed_handler example_config steady_model example_request unembedded_world)))) 7
       = Some \<lparr>content_col = Some example_content,
               embedding_col = Some (replicate 384 (1 / 2) @ replicate 640 0)\<rparr>"
    by (elim conjE)
  with first_run_steady h show ?thesis by (intro conjI)
qed

section \<open>Rows with too little content\<close>

lemma short_row: "table short_world 7
    = Some \<lparr>content_col = Some (js ''(see it) [1]''), embedding_col = None\<rparr>"
  by (simp add: short_world_def)

text \<open>
  Claim C8. For a row whose content is shorter than 10 code units after cleaning, the
  body of the loop leaves the world as it is, before any model pass; after the whole batch
  the row is unchanged and no event of the run is about it, so no update was issued for it.
\<close>

theorem short_content_skipped:
  assumes "table w i = Some r" and "content_col r = Some s" and "too_short (cleanContent s)"
  shows "process_row x (i, Some s) w = w
     \<and> table (snd (embed_handler cfg x req w)) i = Some r
     \<and> (\<forall>e \<in> set (new_events w (snd (embed_handler cfg x req w))). concerns e \<noteq> Some i)"
proof -
  have sk: "skipped (Some s)"
    using assms(3) by (simp add: skipped_def)
  then have "process_row x (i, Some s) w = w"
    by (rule process_row_skipped)
  moreover have "embedding_col r \<noteq> None \<or> skipped (content_col r)"
    using sk assms(2) by simp
  ultimately show ?thesis
    using embed_handler_frame [OF assms(1), of cfg x req] by simp
qed

theorem short_content_skipped_witness:
  "table short_world 7 = Some \<lparr>content_col = Some (js ''(see it) [1]''), embedding_col = None\<rparr>
   \<and> content_col \<lparr>content_col = Some (js ''(see it) [1]''), embedding_col = None\<rparr>
       = Some (js ''(see it) [1]'')
   \<and> length (js ''(see it) [1]'') = 12
   \<and> too_short (cleanContent (js ''(see it) [1]''))
   \<and> process_row steady_model (7, Some (js ''(see it) [1]'')) short_world = short_world
   \<and> table (snd (embed_handler example_config steady_model example_request short_world)) 7
       = Some \<lparr>content_col = Some (js ''(see it) [1]''), embedding_col = None\<rparr>
   \<and> list_all (\<lambda>e. concerns e \<noteq> Some 7) (new_events short_world
        (snd (embed_handler example_config steady_model example_request short_world)))"
proof -
  have h2: "content_col \<lparr>content_col = Some (js ''(see it) [1]''), embedding_col = None\<rparr>
       = Some (js ''(see it) [1]'')"
    by simp
  have h3: "too_short (cleanContent (js ''(see it) [1]''))"
    by (simp add: clean_short_content too_short_def min_content_length_def)
  have l: "length (js ''(see it) [1]'') = 12"
    by (simp add: js_def)
  note t = short_content_skipped [OF short_row h2 h3,
      where x = steady_model and cfg = example_config and req = example_request]
  from t have a: "process_row steady_model (7, Some (js ''(see it) [1]'')) short_world = short_world"
    by (elim conjE)
  from t have b: "table (snd (embed_handler example_config steady_model example_request
      short_world)) 7
      = Some \<lparr>content_col = Some (js ''(see it) [1]''), embedding_col = None\<rparr>"
    by (elim conjE)
  have c: "list_all (\<lambda>e. concerns e \<noteq> Some 7) (new_events short_world
        (snd (embed_handler example_config steady_model example_request short_world)))"
    unfolding list_all_iff using t by (elim conjE)
  from short_row h2 l h3 a b c show ?thesis by (intro conjI)
qed

section \<open>Properties of the Ingestion Trigger\<close>




section \<open>Requests without an Authorization header\<close>

text \<open>
  Claim C10 says that every request without an Authorization header is answered 500 with
  the body \<open>No authorization header passed\<close> by both endpoints. A CORS preflight
  (\<open>OPTIONS\<close>) without the header is answered 200 \<open>ok\<close> by both, and with a
  configuration variable missing the body is \<open>Missing environment variables.\<close>: both
  checks come before the check of the header.
\<close>

theorem preflight_without_authorization_counterexample:
  "falsy (authorization (example_request\<lparr>http_method := ''OPTIONS'', authorization := None\<rparr>))
   \<and> embed_handler example_config steady_model
        (example_request\<lparr>http_method := ''OPTIONS'', authorization := None\<rparr>) unembedded_world
       = (\<lparr>status = 200, body = Plain ''ok'', headers = corsHeaders\<rparr>, unembedded_world)
   \<and> falsy (authorization (example_process_request\<lparr>http_method := ''OPTIONS''\<rparr>))
   \<and> process_handler example_config one_section
        (example_process_request\<lparr>http_method := ''OPTIONS''\<rparr>) example_process_world
       = (\<lparr>status = 200, body = Plain ''ok'', headers = corsHeaders\<rparr>, example_process_world)
   \<and> falsy (authorization example_process_request)
   \<and> http_method example_process_request = ''POST''
   \<and> fst (process_handler (example_config\<lparr>supabaseAnonKey := None\<rparr>) one_section
        example_process_request example_process_world)
       = \<lparr>status = 500, body = ErrorJson ''Missing environment variables.'',
          headers = [(''Content-Type'', ''application/json'')]\<rparr>
   \<and> falsy (authorization (example_request\<lparr>authorization := None\<rparr>))
   \<and> http_method (example_request\<lparr>authorization := None\<rparr>) = ''POST''
   \<and> fst (embed_handler (example_config\<lparr>supabaseUrl := None\<rparr>) steady_model
        (example_request\<lparr>authorization := None\<rparr>) unembedded_world)
       = \<lparr>status = 500, body = ErrorJson ''Missing environment variables.'',
          headers = [(''Content-Type'', ''application/json'')]\<rparr>"
  by (simp add: embed_handler_def process_handler_def preflight_response_def falsy_def
      example_request_def example_process_request_def error_response_def example_config_def)

text \<open>
  Claim C10, amended. For a request without an Authorization header, both endpoints leave
  their world as it is (no client is created, nothing is read or written); and when the
  request is not a CORS preflight and both configuration variables are set, both answer
  500 with the JSON error body \<open>No authorization header passed\<close>.
\<close>

theorem missing_authorization:
  assumes "falsy (authorization req)" and "falsy (authorization preq)"
  shows "snd (embed_handler cfg x req w) = w
     \<and> snd (process_handler cfg px preq pw) = pw
     \<and> (http_method req \<noteq> ''OPTIONS'' \<and> \<not> falsy (supabaseUrl cfg)
          \<and> \<not> falsy (supabaseAnonKey cfg)
        \<longrightarrow> fst (embed_handler cfg x req w)
            = \<lparr>status = 500, body = ErrorJson ''No authorization header passed'',
               headers = [(''Content-Type'', ''application/json'')]\<rparr>)
     \<and> (http_method preq \<noteq> ''OPTIONS'' \<and> \<not> falsy (supabaseUrl cfg)
          \<and> \<not> falsy (supabaseAnonKey cfg)
        \<longrightarrow> fst (process_handler cfg px preq pw)
            = \<lparr>status = 500, body = ErrorJson ''No authorization header passed'',
               headers = [(''Content-Type'', ''application/json'')]\<rparr>)"
  using assms by (simp add: embed_handler_def process_handler_def error_response_def)

theorem missing_authorization_witness:
  "falsy (authorization (example_request\<lparr>authorization := None\<rparr>))
   \<and> falsy (authorization example_process_request)
   \<and> embed_handler example_config steady_model (example_request\<lparr>authorization := None\<rparr>)
        unembedded_world
       = (\<lparr>status = 500, body = ErrorJson ''No authorization header passed'',
           headers = [(''Content-Type'', ''application/json'')]\<rparr>, unembedded_world)
   \<and> process_handler example_config one_section example_process_request example_process_world
       = (\<lparr>status = 500, body = ErrorJson ''No authorization header passed'',
           headers = [(''Content-Type'', ''application/json'')]\<rparr>, example_process_world)"
proof -
  have h1: "falsy (authorization (example_request\<lparr>authorization := None\<rparr>))"
    and h2: "falsy (authorization example_process_request)"
    by (simp_all add: falsy_def example_process_request_def)
  have m: "http_method (example_request\<lparr>authorization := None\<rparr>) \<noteq> ''OPTIONS''"
    "http_method example_process_request \<noteq> ''OPTIONS''"
    by (simp_all add: example_request_def example_process_request_def)
  note t = missing_authorization [OF h1 h2, where cfg = example_config and x = steady_model
      and w = unembedded_world and px = one_section and pw = example_process_world]
  from t m example_passes(2,3) show ?thesis
    using h1 h2 by (simp add: prod_eq_iff)
qed

end
